theory Spec2Isabelle
  imports Main "HOL-Library.Signed_Division"
begin

unbundle bit_operations_syntax

section \<open>A segregated free-list allocator (mm.c)\<close>

text \<open>
  The allocator of \<^verbatim>\<open>src/mm.c\<close> works on raw memory through \<^verbatim>\<open>int *\<close> casts and
  keeps pointers in \<^verbatim>\<open>int\<close> cells, so it is written for a 32-bit target: an
  \<^verbatim>\<open>int\<close>, a \<^verbatim>\<open>size_t\<close> and a pointer are four bytes each.  The embedding keeps
  addresses and cell contents as integers.  Arithmetic on the \<^verbatim>\<open>size_t\<close> request size,
  which comes from the client, wraps around at 32 bits where the source computes in
  \<^verbatim>\<open>size_t\<close>; it is converted to \<^verbatim>\<open>int\<close> by reading the low 32 bits as two's
  complement.  The null pointer is the address 0 and \<^verbatim>\<open>(void *)-1\<close> is the integer
  \<open>-1\<close>.  Sums and differences of \<^verbatim>\<open>int\<close> variables (sizes, totals, the counter)
  wrap around at 32 bits as well, as the target computes them.  Pointer arithmetic
  is not wrapped: the heap region is taken to lie in the addresses from 0 to
  \<open>2 ^ 31\<close>, where a pointer and its cast to \<^verbatim>\<open>int\<close> agree and the comparisons
  of pointers are comparisons of integers; an address outside the region is a
  fault when it is accessed.

  Memory is an array of four-byte words: every access of the source is an access to
  an \<^verbatim>\<open>int\<close>.  A function of the source that changes memory or a global variable
  takes the state and returns the new one.  Of the output only the messages of
  \<^verbatim>\<open>mm_check\<close> are kept, as the list it returns; the lines that \<^verbatim>\<open>mm_init\<close> and
  \<^verbatim>\<open>mm_realloc\<close> print before they give up ("init failed", "mem_sbrk failed") are
  not part of the state.
\<close>

subsection \<open>Faults and results\<close>

text \<open>
  Every way in which a call can fail to return is a value:
  \<^item> \<open>BadAccess a\<close>: a four-byte access at address \<open>a\<close> that is not a word of the
    heap region (below \<^verbatim>\<open>mem_heap_lo()\<close>, above \<^verbatim>\<open>mem_heap_hi()\<close>, or not
    four-byte aligned);
  \<^item> \<open>BadIndex i\<close>: \<^verbatim>\<open>seg_list[i]\<close> with \<open>i\<close> outside the \<^verbatim>\<open>LISTLENGTH\<close> entries;
  \<^item> \<open>Exit c\<close>: the call to \<^verbatim>\<open>exit(c)\<close>;
  \<^item> \<open>OutOfFuel\<close>: a loop or a recursion of the source that did not finish within
    the number of steps granted.
\<close>

datatype fault = BadAccess int | BadIndex int | Exit int | OutOfFuel

type_synonym 'a result = "fault + 'a"

definition bnd :: "'a result \<Rightarrow> ('a \<Rightarrow> 'b result) \<Rightarrow> 'b result" where
  "bnd m f = (case m of Inl e \<Rightarrow> Inl e | Inr x \<Rightarrow> f x)"

subsection \<open>The state: the heap region and the allocator's globals\<close>

text \<open>
  \<open>mem\<close> holds the four-byte word at every address.  \<open>heap_lo\<close>, \<open>heap_brk\<close> and
  \<open>heap_max\<close> are the variables of the heap region of \<^verbatim>\<open>memlib\<close>; the other fields
  are the static variables of \<^verbatim>\<open>mm.c\<close>, under their names there.
\<close>

record heap =
  mem :: "int \<Rightarrow> int"
  heap_lo :: int
  heap_brk :: int
  heap_max :: int
  mem_start_brk :: int
  seg_list :: int
  mm_start_brk :: int
  mem_max_addr :: int
  m_count :: int

text \<open>
  Modelled from the spec: the heap region (\<^verbatim>\<open>memlib.c\<close>, declared in \<^verbatim>\<open>memlib.h\<close>)
  is not under \<^verbatim>\<open>src/\<close>.  The spec gives its contract: \<open>low()\<close> is the fixed low
  bound, \<open>high()\<close> is the last valid byte, and \<open>extend(n)\<close> grows the region by \<open>n\<close>
  bytes and returns the base of the new range (the previous \<open>high() + 1\<close>) or a
  sentinel failure; the region never shrinks.  The capacity \<open>heap_max\<close> at which
  \<open>extend\<close> fails is a parameter of the state.
\<close>

definition mem_heap_lo :: "heap \<Rightarrow> int" where
  "mem_heap_lo s = heap_lo s"

definition mem_heap_hi :: "heap \<Rightarrow> int" where
  "mem_heap_hi s = heap_brk s - 1"

definition mem_sbrk :: "heap \<Rightarrow> int \<Rightarrow> int \<times> heap" where
  "mem_sbrk s incr =
     (if incr < 0 \<or> heap_brk s + incr > heap_max s then (- 1, s)
      else (heap_brk s, s\<lparr>heap_brk := heap_brk s + incr\<rparr>))"

subsection \<open>Memory accesses\<close>

definition in_heap :: "heap \<Rightarrow> int \<Rightarrow> bool" where
  "in_heap s a \<longleftrightarrow> heap_lo s \<le> a \<and> a + 4 \<le> heap_brk s \<and> a mod 4 = 0"

text \<open>\<^verbatim>\<open>*(int *)a\<close> as a value and as the target of an assignment.\<close>

definition INTVAL :: "heap \<Rightarrow> int \<Rightarrow> int result" where
  "INTVAL s a = (if in_heap s a then Inr (mem s a) else Inl (BadAccess a))"

definition SET_INTVAL :: "heap \<Rightarrow> int \<Rightarrow> int \<Rightarrow> heap result" where
  "SET_INTVAL s a v =
     (if in_heap s a then Inr (s\<lparr>mem := (mem s)(a := v)\<rparr>) else Inl (BadAccess a))"

definition LISTLENGTH :: int where
  "LISTLENGTH = 22"

text \<open>\<^verbatim>\<open>sizeof(void **)\<close> on the 32-bit target.\<close>

definition SIZE_OF_POINTER :: int where
  "SIZE_OF_POINTER = 4"

text \<open>\<^verbatim>\<open>&(seg_list[i])\<close>, \<^verbatim>\<open>seg_list[i]\<close> as a value and as the target of an assignment.\<close>

definition seg_addr :: "heap \<Rightarrow> int \<Rightarrow> int" where
  "seg_addr s i = seg_list s + SIZE_OF_POINTER * i"

definition seg_get :: "heap \<Rightarrow> int \<Rightarrow> int result" where
  "seg_get s i =
     (if 0 \<le> i \<and> i < LISTLENGTH then INTVAL s (seg_addr s i) else Inl (BadIndex i))"

definition seg_set :: "heap \<Rightarrow> int \<Rightarrow> int \<Rightarrow> heap result" where
  "seg_set s i v =
     (if 0 \<le> i \<and> i < LISTLENGTH then SET_INTVAL s (seg_addr s i) v else Inl (BadIndex i))"

subsection \<open>The macros\<close>

text \<open>
  \<^verbatim>\<open>ALIGN(size)\<close> is \<^verbatim>\<open>((size) + (ALIGNMENT-1)) & ~0x7\<close>, computed in \<^verbatim>\<open>size_t\<close>:
  the sum wraps at 32 bits and \<^verbatim>\<open>~0x7\<close> is \<open>0xFFFFFFF8\<close> there.
\<close>

definition ALIGN :: "int \<Rightarrow> int" where
  "ALIGN sz = take_bit 32 (sz + 7) AND 0xFFFFFFF8"

text \<open>
  The conversion of a \<^verbatim>\<open>size_t\<close> value to \<^verbatim>\<open>int\<close>, and the value of a sum or
  difference computed in \<^verbatim>\<open>int\<close>: the low 32 bits, read as two's complement.
\<close>

definition to_int :: "int \<Rightarrow> int" where
  "to_int x = signed_take_bit 31 x"

text \<open>\<^verbatim>\<open>sizeof(size_t)\<close> is 4 on the 32-bit target.\<close>

definition SIZE_T_SIZE :: int where
  "SIZE_T_SIZE = ALIGN 4"

definition SIZE_OF_SIZE_T :: int where
  "SIZE_OF_SIZE_T = SIZE_T_SIZE"

definition SIZE_OF_INFOS :: int where
  "SIZE_OF_INFOS = ALIGN SIZE_T_SIZE * 2"

text \<open>The tag macros, on the value of a tag word.\<close>

definition GET_SIZE :: "int \<Rightarrow> int" where
  "GET_SIZE v = v AND (- 2)"

definition GET_ALLOC :: "int \<Rightarrow> int" where
  "GET_ALLOC v = v AND 1"

definition SET_ALLOC_VAL :: "int \<Rightarrow> int" where
  "SET_ALLOC_VAL sz = sz OR 1"

definition SET_FREE_VAL :: "int \<Rightarrow> int" where
  "SET_FREE_VAL info = push_bit 1 (drop_bit 1 info)"

text \<open>
  The pointer macros, on byte addresses: \<^verbatim>\<open>PREVINT(p)\<close> is \<open>p - 4\<close>,
  \<^verbatim>\<open>NEXT3INT(p)\<close> is \<open>p + 12\<close>, and so on.
\<close>

definition DIVUSRPTR :: "int \<Rightarrow> int \<Rightarrow> int" where
  "DIVUSRPTR p sz = p + sz + 16 - 4"

definition BACKWARDINT :: "int \<Rightarrow> int \<Rightarrow> int" where
  "BACKWARDINT start_ptr tempSize = start_ptr - tempSize - 16"

definition FORWARDINT :: "int \<Rightarrow> int \<Rightarrow> int" where
  "FORWARDINT last_ptr tempSize = last_ptr + tempSize + 16"

text \<open>The address that \<^verbatim>\<open>SECONDINFOINTVAL(p, contentsize)\<close> accesses.\<close>

definition SECONDINFO :: "int \<Rightarrow> int \<Rightarrow> int" where
  "SECONDINFO p contentsize = p + contentsize + 12"

subsection \<open>The bucket of a size\<close>

text \<open>
  The loop \<^verbatim>\<open>while(temp_val != 0) { cnt_bit++; temp_val /= 2; }\<close> of
  \<^verbatim>\<open>add_to_list_usr\<close>, \<^verbatim>\<open>mm_malloc\<close> and \<^verbatim>\<open>check_if_in_list_usr\<close>; the division
  of C truncates towards zero.
\<close>

function count_bits :: "int \<Rightarrow> int \<Rightarrow> int" where
  "count_bits temp_val cnt_bit =
     (if temp_val \<noteq> 0 then count_bits (temp_val sdiv 2) (cnt_bit + 1) else cnt_bit)"
  by pat_completeness auto
termination
  by (relation "measure (\<lambda>(t, c). nat \<bar>t\<bar>)")
     (auto simp: signed_divide_int_def sgn_if)

text \<open>\<^verbatim>\<open>index = cnt_bit - 4\<close>, and the start \<^verbatim>\<open>i = i - 4\<close> of the search.\<close>

definition bucket_index :: "int \<Rightarrow> int" where
  "bucket_index sz = count_bits sz 0 - 4"

subsection \<open>Initialisation\<close>

text \<open>The loop \<^verbatim>\<open>for(i=0;i<LISTLENGTH;i++) seg_list[i] = NULL;\<close>.\<close>

function init_list :: "heap \<Rightarrow> int \<Rightarrow> heap result" where
  "init_list s i =
     (if i < LISTLENGTH then bnd (seg_set s i 0) (\<lambda>s1. init_list s1 (i + 1)) else Inr s)"
  by pat_completeness auto
termination
  by (relation "measure (\<lambda>(s, i). nat (LISTLENGTH - i))") auto

text \<open>\<^verbatim>\<open>mm_init\<close> returns 0, or \<open>-1\<close> when the region cannot hold the list heads.\<close>

definition mm_init :: "heap \<Rightarrow> (int \<times> heap) result" where
  "mm_init s =
     (let s1 = s\<lparr>m_count := 0\<rparr>;
          s2 = s1\<lparr>mem_start_brk := mem_heap_lo s1\<rparr>;
          s3 = s2\<lparr>seg_list := mem_start_brk s2\<rparr>;
          (r, s4) = mem_sbrk s3 (SIZE_OF_POINTER * LISTLENGTH)
      in if r = - 1 then Inr (- 1, s4)
         else bnd (init_list s4 0) (\<lambda>s5.
              Inr (0, s5\<lparr>mm_start_brk := mem_heap_hi s5 + 1\<rparr>)))"

subsection \<open>The free lists\<close>

text \<open>
  \<^verbatim>\<open>remove_entry(next_p)\<close>: \<open>next_p\<close> is the address of the victim's "next" cell,
  the cell before it holds "prev".
\<close>

definition remove_entry :: "heap \<Rightarrow> int \<Rightarrow> heap result" where
  "remove_entry s next_p =
     bnd (INTVAL s next_p) (\<lambda>next.
     bnd (if next \<noteq> 0
          then bnd (INTVAL s (next_p - 4)) (\<lambda>prev.
               bnd (INTVAL s next_p) (\<lambda>n. SET_INTVAL s (n - 4) prev))
          else Inr s) (\<lambda>s1.
     bnd (INTVAL s1 (next_p - 4)) (\<lambda>prev.
     bnd (INTVAL s1 next_p) (\<lambda>n.
     if prev + 4 > mm_start_brk s1 then SET_INTVAL s1 (prev + 4) n
     else SET_INTVAL s1 prev n))))"

text \<open>\<^verbatim>\<open>add_to_list_usr(ptr, size)\<close>: \<open>ptr\<close> is the user pointer of the free block.\<close>

definition add_to_list_usr :: "heap \<Rightarrow> int \<Rightarrow> int \<Rightarrow> heap result" where
  "add_to_list_usr s ptr sz =
     (if sz = 0 then Inr s
      else
        let index = bucket_index sz in
        bnd (seg_get s index) (\<lambda>head.
        bnd (SET_INTVAL s (ptr + 4) head) (\<lambda>s1.
        bnd (SET_INTVAL s1 ptr (seg_addr s1 index)) (\<lambda>s2.
        bnd (INTVAL s2 (ptr + 4)) (\<lambda>next.
        bnd (if next \<noteq> 0 then SET_INTVAL s2 (next - 4) ptr else Inr s2) (\<lambda>s3.
        seg_set s3 index (ptr + 4)))))))"

text \<open>\<^verbatim>\<open>set_info_free(p, size)\<close>: \<open>p\<close> is the address of the header tag.\<close>

definition set_info_free :: "heap \<Rightarrow> int \<Rightarrow> int \<Rightarrow> heap result" where
  "set_info_free s p sz =
     bnd (SET_INTVAL s p (SET_FREE_VAL sz)) (\<lambda>s1.
     SET_INTVAL s1 (SECONDINFO (p - 4) sz) (SET_FREE_VAL sz))"

subsection \<open>Coalescing and free\<close>

text \<open>
  The two loops of \<^verbatim>\<open>coalesce\<close>.  Each returns the cursor and the total it ends
  with.  The loops follow sizes read from memory, so they are given fuel.
\<close>

fun coalesce_backward :: "nat \<Rightarrow> heap \<Rightarrow> int \<Rightarrow> int \<Rightarrow> (int \<times> int \<times> heap) result" where
  "coalesce_backward 0 s start_ptr totalSize = Inl OutOfFuel"
| "coalesce_backward (Suc fuel) s start_ptr totalSize =
     (if start_ptr \<ge> mm_start_brk s then
        bnd (INTVAL s start_ptr) (\<lambda>v.
        if GET_ALLOC v \<noteq> 0 then Inr (start_ptr, totalSize, s)
        else
          let tempSize = GET_SIZE v;
              totalSize1 = to_int (totalSize + to_int (tempSize + 16));
              start_ptr1 = BACKWARDINT start_ptr tempSize
          in bnd (if tempSize \<noteq> 0 then remove_entry s (start_ptr1 + 16) else Inr s) (\<lambda>s1.
             coalesce_backward fuel s1 start_ptr1 totalSize1))
      else Inr (start_ptr, totalSize, s))"

fun coalesce_forward :: "nat \<Rightarrow> heap \<Rightarrow> int \<Rightarrow> int \<Rightarrow> (int \<times> int \<times> heap) result" where
  "coalesce_forward 0 s last_ptr totalSize = Inl OutOfFuel"
| "coalesce_forward (Suc fuel) s last_ptr totalSize =
     (if last_ptr < mem_max_addr s then
        bnd (INTVAL s last_ptr) (\<lambda>v.
        if GET_ALLOC v \<noteq> 0 then Inr (last_ptr, totalSize, s)
        else
          let tempSize = GET_SIZE v;
              totalSize1 = to_int (totalSize + to_int (tempSize + 16))
          in bnd (if tempSize \<noteq> 0 then remove_entry s (last_ptr + 8) else Inr s) (\<lambda>s1.
             coalesce_forward fuel s1 (FORWARDINT last_ptr tempSize) totalSize1))
      else Inr (last_ptr, totalSize, s))"

text \<open>\<^verbatim>\<open>coalesce(ptr)\<close>: \<open>ptr\<close> is the user pointer of a block that is in no list.\<close>

definition coalesce :: "nat \<Rightarrow> heap \<Rightarrow> int \<Rightarrow> heap result" where
  "coalesce fuel s ptr =
     bnd (INTVAL s (ptr - 4)) (\<lambda>h.
     let totalSize = GET_SIZE h;
         last_ptr = FORWARDINT (ptr - 4) totalSize
     in bnd (coalesce_backward fuel s (ptr - 12) totalSize) (\<lambda>(start_ptr, totalSize1, s1).
        let s2 = s1\<lparr>mem_max_addr := mem_heap_hi s1\<rparr>
        in bnd (coalesce_forward fuel s2 last_ptr totalSize1) (\<lambda>(last_ptr1, totalSize2, s3).
           bnd (set_info_free s3 (start_ptr + 8) totalSize2) (\<lambda>s4.
           add_to_list_usr s4 (start_ptr + 12) totalSize2))))"

definition mm_free :: "nat \<Rightarrow> heap \<Rightarrow> int \<Rightarrow> heap result" where
  "mm_free fuel s ptr =
     bnd (INTVAL s (ptr - 4)) (\<lambda>h.
     let sz = GET_SIZE h
     in bnd (SET_INTVAL s (ptr - 4) (SET_FREE_VAL h)) (\<lambda>s1.
        bnd (INTVAL s1 (ptr - 4)) (\<lambda>h1.
        bnd (SET_INTVAL s1 (SECONDINFO (ptr - 8) sz) (SET_FREE_VAL h1)) (\<lambda>s2.
        coalesce fuel s2 ptr))))"

subsection \<open>Allocation\<close>

text \<open>
  The inner loop \<^verbatim>\<open>while(next_p != NULL)\<close> of the search of \<^verbatim>\<open>mm_malloc\<close>, on one
  list.  The result is \<open>Some p\<close> when \<^verbatim>\<open>found\<close> is set, with the block \<open>p\<close>.  The
  loop follows the links stored in memory, so it is given fuel.
\<close>

fun search_bucket :: "nat \<Rightarrow> heap \<Rightarrow> int \<Rightarrow> int \<Rightarrow> (int option \<times> heap) result" where
  "search_bucket 0 s next_p contentsize = Inl OutOfFuel"
| "search_bucket (Suc fuel) s next_p contentsize =
     (if next_p \<noteq> 0 then
        bnd (INTVAL s (next_p - 8)) (\<lambda>v.
        let diff = to_int (GET_SIZE v - contentsize) in
        if diff = 0 then
          bnd (remove_entry s next_p) (\<lambda>s1. Inr (Some (next_p - 12), s1))
        else if diff \<ge> 16 then
          bnd (remove_entry s next_p) (\<lambda>s1.
          let sizediv = to_int (diff - 16);
              temp_ptr = DIVUSRPTR next_p contentsize
          in bnd (set_info_free s1 (temp_ptr - 4) sizediv) (\<lambda>s2.
             bnd (add_to_list_usr s2 temp_ptr sizediv) (\<lambda>s3.
             Inr (Some (next_p - 12), s3))))
        else bnd (INTVAL s next_p) (\<lambda>n. search_bucket fuel s n contentsize))
      else Inr (None, s))"

text \<open>The outer loop \<^verbatim>\<open>for(i=i-4;i<LISTLENGTH;i++)\<close>, from the index \<open>i\<close> on.\<close>

function search_lists :: "nat \<Rightarrow> heap \<Rightarrow> int \<Rightarrow> int \<Rightarrow> (int option \<times> heap) result" where
  "search_lists fuel s i contentsize =
     (if i < LISTLENGTH then
        bnd (seg_get s i) (\<lambda>next_p.
        bnd (search_bucket fuel s next_p contentsize) (\<lambda>(found, s1).
        case found of
          Some p \<Rightarrow> Inr (Some p, s1)
        | None \<Rightarrow> search_lists fuel s1 (i + 1) contentsize))
      else Inr (None, s))"
  by pat_completeness auto
termination
  by (relation "measure (\<lambda>(fuel, s, i, c). nat (LISTLENGTH - i))") auto

text \<open>
  \<^verbatim>\<open>mm_malloc(size)\<close>, with \<open>0 \<le> sz < 2 ^ 32\<close> the \<^verbatim>\<open>size_t\<close> argument.  The result
  is the pointer returned (0 for \<^verbatim>\<open>NULL\<close>) and the state.  The function calls itself
  for small requests; the fuel bounds the depth of these calls and the length of
  every loop.
\<close>

fun mm_malloc :: "nat \<Rightarrow> heap \<Rightarrow> int \<Rightarrow> (int \<times> heap) result" where
  "mm_malloc 0 s sz = Inl OutOfFuel"
| "mm_malloc (Suc fuel) s sz =
     (let newsize = to_int (ALIGN (take_bit 32 (sz + SIZE_OF_INFOS)));
          contentsize = to_int (ALIGN sz)
      in
      bnd (if newsize \<le> 32 then
             if m_count s = 0 \<or> m_count s = 4 then
               bnd (mm_malloc fuel s (take_bit 32 (ALIGN sz * 4 + 16 * 3))) (\<lambda>(q, s1).
               bnd (mm_free fuel s1 q) (\<lambda>s2. Inr (s2\<lparr>m_count := 1\<rparr>)))
             else Inr (s\<lparr>m_count := to_int (m_count s + 1)\<rparr>)
           else if newsize \<le> 80 then
             if m_count s = 0 \<or> m_count s = 6 then
               bnd (mm_malloc fuel s (take_bit 32 (ALIGN sz * 6 + 16 * 5))) (\<lambda>(q, s1).
               bnd (mm_free fuel s1 q) (\<lambda>s2. Inr (s2\<lparr>m_count := 1\<rparr>)))
             else Inr (s\<lparr>m_count := to_int (m_count s + 1)\<rparr>)
           else Inr s) (\<lambda>s3.
      bnd (search_lists (Suc fuel) s3 (bucket_index contentsize) contentsize) (\<lambda>(found, s4).
      let (p, s5) = (case found of Some p \<Rightarrow> (p, s4) | None \<Rightarrow> mem_sbrk s4 newsize)
      in if p = - 1 then Inr (0, s5)
         else
           bnd (SET_INTVAL s5 (p + 4) (SET_ALLOC_VAL contentsize)) (\<lambda>s6.
           bnd (SET_INTVAL s6 (SECONDINFO p contentsize) (SET_ALLOC_VAL contentsize)) (\<lambda>s7.
           Inr (p + SIZE_OF_SIZE_T, s7))))))"

subsection \<open>Reallocation\<close>

definition check_last_usr :: "heap \<Rightarrow> int \<Rightarrow> int result" where
  "check_last_usr s ptr =
     bnd (INTVAL s (ptr - 4)) (\<lambda>h.
     let next = FORWARDINT (ptr - 4) (GET_SIZE h);
         high = mem_heap_hi s
     in if next \<ge> high then Inr 1 else Inr 0)"

text \<open>
  The two accumulation loops of \<^verbatim>\<open>mm_realloc\<close>.  Each returns the cursor, the total
  and \<^verbatim>\<open>possible\<close>.  They write nothing.
\<close>

fun realloc_backward :: "nat \<Rightarrow> heap \<Rightarrow> int \<Rightarrow> int \<Rightarrow> int \<Rightarrow> (int \<times> int \<times> bool) result" where
  "realloc_backward 0 s start_ptr totalSize newsize = Inl OutOfFuel"
| "realloc_backward (Suc fuel) s start_ptr totalSize newsize =
     (if start_ptr \<ge> mm_start_brk s then
        bnd (INTVAL s start_ptr) (\<lambda>v.
        if GET_ALLOC v \<noteq> 0 then Inr (start_ptr, totalSize, False)
        else
          let tempSize = GET_SIZE v;
              totalSize1 = to_int (totalSize + to_int (tempSize + 16));
              start_ptr1 = BACKWARDINT start_ptr tempSize
          in if totalSize1 \<ge> to_int (newsize + 16) \<or> totalSize1 = newsize
             then Inr (start_ptr1, totalSize1, True)
             else realloc_backward fuel s start_ptr1 totalSize1 newsize)
      else Inr (start_ptr, totalSize, False))"

fun realloc_forward :: "nat \<Rightarrow> heap \<Rightarrow> int \<Rightarrow> int \<Rightarrow> int \<Rightarrow> (int \<times> int \<times> bool) result" where
  "realloc_forward 0 s last_ptr totalSize newsize = Inl OutOfFuel"
| "realloc_forward (Suc fuel) s last_ptr totalSize newsize =
     (if last_ptr < mem_max_addr s then
        bnd (INTVAL s last_ptr) (\<lambda>v.
        if GET_ALLOC v \<noteq> 0 then Inr (last_ptr, totalSize, False)
        else
          let tempSize = GET_SIZE v;
              totalSize1 = to_int (totalSize + to_int (tempSize + 16));
              last_ptr1 = FORWARDINT last_ptr tempSize
          in if totalSize1 \<ge> to_int (newsize + 16) \<or> totalSize1 = newsize
             then Inr (last_ptr1, totalSize1, True)
             else realloc_forward fuel s last_ptr1 totalSize1 newsize)
      else Inr (last_ptr, totalSize, False))"

text \<open>
  The two removal loops of \<^verbatim>\<open>mm_realloc\<close> ("remove all in the route").  The forward
  loop computes its next cursor from \<open>last_ptr\<close>, as the source does.
\<close>

fun remove_backward :: "nat \<Rightarrow> heap \<Rightarrow> int \<Rightarrow> int \<Rightarrow> int \<Rightarrow> heap result" where
  "remove_backward 0 s itr_ptr start_ptr tempSize = Inl OutOfFuel"
| "remove_backward (Suc fuel) s itr_ptr start_ptr tempSize =
     (if itr_ptr > start_ptr then
        let itr_ptr1 = BACKWARDINT itr_ptr tempSize
        in bnd (INTVAL s itr_ptr1) (\<lambda>v.
           bnd (remove_entry s (itr_ptr1 + 16)) (\<lambda>s1.
           remove_backward fuel s1 itr_ptr1 start_ptr (GET_SIZE v)))
      else Inr s)"

fun remove_forward :: "nat \<Rightarrow> heap \<Rightarrow> int \<Rightarrow> int \<Rightarrow> heap result" where
  "remove_forward 0 s itr_ptr last_ptr = Inl OutOfFuel"
| "remove_forward (Suc fuel) s itr_ptr last_ptr =
     (if itr_ptr < last_ptr then
        bnd (remove_entry s (itr_ptr + 8)) (\<lambda>s1.
        bnd (INTVAL s1 itr_ptr) (\<lambda>v.
        remove_forward fuel s1 (FORWARDINT last_ptr (GET_SIZE v)) last_ptr))
      else Inr s)"

text \<open>
  The copy loops \<^verbatim>\<open>for(i=0;i<copySize;i++) newptr[i] = oldptr[i]\<close> and
  \<^verbatim>\<open>memcpy(newptr, oldptr, copySize)\<close>, four bytes at a step from low to high
  addresses: \<open>copySize\<close> is the smaller of a tag's size and an \<^verbatim>\<open>ALIGN\<close>ed size, and the
  blocks start at word boundaries.
\<close>

function copy_words :: "heap \<Rightarrow> int \<Rightarrow> int \<Rightarrow> int \<Rightarrow> int \<Rightarrow> heap result" where
  "copy_words s newptr oldptr i copySize =
     (if i < copySize then
        bnd (INTVAL s (oldptr + i)) (\<lambda>v.
        bnd (SET_INTVAL s (newptr + i) v) (\<lambda>s1.
        copy_words s1 newptr oldptr (i + 4) copySize))
      else Inr s)"
  by pat_completeness auto
termination
  by (relation "measure (\<lambda>(s, n, p, i, c). nat (c - i))") auto

text \<open>
  The split that both the shrink case and the coalesce case of \<^verbatim>\<open>mm_realloc\<close>
  write out: allocated tags of size \<open>newsize\<close> at \<open>start_info_ptr\<close>, free tags on the
  rest, and the rest added to a list.
\<close>

definition realloc_divide :: "heap \<Rightarrow> int \<Rightarrow> int \<Rightarrow> int \<Rightarrow> heap result" where
  "realloc_divide s start_info_ptr totalSize newsize =
     (let sizediv = to_int (to_int (totalSize - newsize) - 16)
      in bnd (SET_INTVAL s start_info_ptr (SET_ALLOC_VAL newsize)) (\<lambda>s1.
         bnd (SET_INTVAL s1 (SECONDINFO (start_info_ptr - 4) newsize) (SET_ALLOC_VAL newsize)) (\<lambda>s2.
         let div_ptr = DIVUSRPTR (start_info_ptr + 8) newsize
         in bnd (set_info_free s2 (div_ptr - 4) sizediv) (\<lambda>s3.
            add_to_list_usr s3 div_ptr sizediv))))"

text \<open>
  \<^verbatim>\<open>mm_realloc(ptr, size)\<close>.  The initialisers of \<open>copySize\<close> and \<open>totalSize\<close> read
  the header through \<open>ptr\<close> before any test of \<open>ptr\<close>.
\<close>

definition mm_realloc :: "nat \<Rightarrow> heap \<Rightarrow> int \<Rightarrow> int \<Rightarrow> (int \<times> heap) result" where
  "mm_realloc fuel s ptr sz =
     bnd (INTVAL s (ptr - 4)) (\<lambda>h0.
     bnd (INTVAL s (ptr - 4)) (\<lambda>h.
     let copySize0 = take_bit 32 (GET_SIZE h0);
         start_ptr = ptr - 12;
         totalSize = GET_SIZE h;
         last_ptr = FORWARDINT (ptr - 4) totalSize;
         itr_ptr = ptr - 12;
         newsize = to_int (ALIGN sz);
         copySize = (if take_bit 32 newsize < copySize0 then take_bit 32 newsize else copySize0)
     in
     if ptr = 0 then mm_malloc fuel s sz
     else if sz = 0 then bnd (mm_free fuel s ptr) (\<lambda>s1. Inr (0, s1))
     else if totalSize = newsize then Inr (ptr, s)
     else if totalSize \<ge> to_int (newsize + 16) then
       bnd (realloc_divide s (ptr - 4) totalSize newsize) (\<lambda>s1. Inr (ptr, s1))
     else
       bnd (if totalSize < newsize then check_last_usr s ptr else Inr 0) (\<lambda>last.
       if totalSize < newsize \<and> last \<noteq> 0 then
         let diff = to_int (newsize - totalSize);
             (temp_ptr, s1) = mem_sbrk s diff
         in if temp_ptr = - 1 then Inl (Exit 1)
            else
              bnd (SET_INTVAL s1 (ptr - 4) (SET_ALLOC_VAL newsize)) (\<lambda>s2.
              bnd (SET_INTVAL s2 (SECONDINFO (ptr - 8) newsize) (SET_ALLOC_VAL newsize)) (\<lambda>s3.
              Inr (ptr, s3)))
       else
         bnd (realloc_backward fuel s start_ptr totalSize newsize) (\<lambda>(start_ptr1, totalSize1, possible1).
         bnd (if \<not> possible1 then
                let s1 = s\<lparr>mem_max_addr := mem_heap_hi s\<rparr>
                in bnd (realloc_forward fuel s1 last_ptr totalSize1 newsize)
                     (\<lambda>(last_ptr1, totalSize2, possible2). Inr (last_ptr1, totalSize2, possible2, s1))
              else Inr (last_ptr, totalSize1, possible1, s)) (\<lambda>(last_ptr1, totalSize2, possible, s2).
         bnd (INTVAL s2 itr_ptr) (\<lambda>v.
         if possible then
           bnd (remove_backward fuel s2 itr_ptr start_ptr1 (GET_SIZE v)) (\<lambda>s3.
           bnd (INTVAL s3 (ptr - 4)) (\<lambda>h1.
           bnd (remove_forward fuel s3 (FORWARDINT (ptr - 4) (GET_SIZE h1)) last_ptr1) (\<lambda>s4.
           let start_info_ptr = start_ptr1 + 8;
               newptr = start_info_ptr + 4
           in bnd (copy_words s4 newptr ptr 0 copySize) (\<lambda>s5.
              bnd (if totalSize2 \<noteq> newsize
                   then realloc_divide s5 start_info_ptr totalSize2 newsize
                   else Inr s5) (\<lambda>s6.
              if newptr = 0 then Inr (0, s6) else Inr (newptr, s6))))))
         else
           bnd (mm_malloc fuel s2 sz) (\<lambda>(newptr, s3).
           if newptr = 0 then Inr (0, s3)
           else
             bnd (copy_words s3 newptr ptr 0 copySize) (\<lambda>s4.
             bnd (mm_free fuel s4 ptr) (\<lambda>s5.
             Inr (newptr, s5))))))))))"

subsection \<open>The consistency checker\<close>

text \<open>The messages that \<^verbatim>\<open>mm_check\<close> prints, each with the pointer it prints.\<close>

datatype diag =
    NotCoalesced int
  | NotInList int
  | DifferentHeaderFooter int
  | AllocBitInList int
  | Invalid

text \<open>The loop \<^verbatim>\<open>while( traverse != NULL )\<close> of \<^verbatim>\<open>check_if_in_list_usr\<close>.\<close>

fun list_traverse :: "nat \<Rightarrow> heap \<Rightarrow> int \<Rightarrow> int \<Rightarrow> int result" where
  "list_traverse 0 s traverse compare = Inl OutOfFuel"
| "list_traverse (Suc fuel) s traverse compare =
     (if traverse \<noteq> 0 then
        if traverse = compare then Inr 1
        else bnd (INTVAL s traverse) (\<lambda>n. list_traverse fuel s n compare)
      else Inr 0)"

definition check_if_in_list_usr :: "nat \<Rightarrow> heap \<Rightarrow> int \<Rightarrow> int \<Rightarrow> int result" where
  "check_if_in_list_usr fuel s ptr sz =
     (let compare = ptr + 4
      in if sz = 0 then Inr 1
         else bnd (seg_get s (bucket_index sz)) (\<lambda>traverse.
              list_traverse fuel s traverse compare))"

text \<open>
  The walk by address of \<^verbatim>\<open>mm_check\<close>.  The state of the loop is \<open>traverse\<close>,
  \<open>prev\<close>, \<open>valid\<close> and the messages printed so far.
\<close>

fun check_walk :: "nat \<Rightarrow> heap \<Rightarrow> int \<Rightarrow> int \<Rightarrow> int \<Rightarrow> diag list \<Rightarrow> (int \<times> diag list) result" where
  "check_walk 0 s traverse prev valid out = Inl OutOfFuel"
| "check_walk (Suc fuel) s traverse prev valid out =
     (if traverse < mem_heap_hi s then
        bnd (INTVAL s traverse) (\<lambda>v.
        bnd (if GET_ALLOC v \<noteq> 0 then Inr (1, valid, out)
             else
               let (valid1, out1) =
                     (if prev = 0 then (0, out @ [NotCoalesced (traverse + 4)]) else (valid, out))
               in bnd (check_if_in_list_usr fuel s (traverse + 4) (GET_SIZE v)) (\<lambda>r.
                  if r = 0 then Inr (0, 0, out1 @ [NotInList (traverse + 4)])
                  else Inr (0, valid1, out1))) (\<lambda>(prev1, valid2, out2).
        let prevptr = traverse;
            traverse1 = FORWARDINT traverse (GET_SIZE v)
        in bnd (INTVAL s prevptr) (\<lambda>hd.
           bnd (INTVAL s (traverse1 - 8)) (\<lambda>ft.
           check_walk fuel s traverse1 prev1 valid2
             (if hd \<noteq> ft then out2 @ [DifferentHeaderFooter (prevptr + 4)] else out2)))))
      else Inr (valid, out))"

text \<open>The inner loop \<^verbatim>\<open>while(traverse2 != NULL)\<close> of the walk through the lists.\<close>

fun check_list :: "nat \<Rightarrow> heap \<Rightarrow> int \<Rightarrow> int \<Rightarrow> diag list \<Rightarrow> (int \<times> diag list) result" where
  "check_list 0 s traverse2 valid out = Inl OutOfFuel"
| "check_list (Suc fuel) s traverse2 valid out =
     (if traverse2 \<noteq> 0 then
        bnd (INTVAL s (traverse2 - 8)) (\<lambda>v.
        bnd (INTVAL s traverse2) (\<lambda>n.
        if GET_ALLOC v \<noteq> 0
        then check_list fuel s n 0 (out @ [AllocBitInList (traverse2 - 4)])
        else check_list fuel s n valid out))
      else Inr (valid, out))"

function check_lists :: "nat \<Rightarrow> heap \<Rightarrow> int \<Rightarrow> int \<Rightarrow> diag list \<Rightarrow> (int \<times> diag list) result" where
  "check_lists fuel s i valid out =
     (if i < LISTLENGTH then
        bnd (seg_get s i) (\<lambda>head.
        if head = 0 then check_lists fuel s (i + 1) valid out
        else bnd (check_list fuel s head valid out) (\<lambda>(valid1, out1).
             check_lists fuel s (i + 1) valid1 out1))
      else Inr (valid, out))"
  by pat_completeness auto
termination
  by (relation "measure (\<lambda>(fuel, s, i, v, out). nat (LISTLENGTH - i))") auto

text \<open>\<^verbatim>\<open>mm_check\<close>: the value returned and the messages printed.\<close>

definition mm_check :: "nat \<Rightarrow> heap \<Rightarrow> (int \<times> diag list) result" where
  "mm_check fuel s =
     bnd (check_walk fuel s (mm_start_brk s + 4) 1 1 []) (\<lambda>(valid, out).
     bnd (check_lists fuel s 0 valid out) (\<lambda>(valid1, out1).
     if valid1 \<noteq> 0 then Inr (1, out1) else Inr (0, out1 @ [Invalid])))"

subsection \<open>Sequences of calls\<close>

text \<open>
  A heap region that nothing has used yet: \<open>cap\<close> bytes can be had from the address
  \<open>lo\<close> on, and every word reads 0.
\<close>

definition fresh_region :: "int \<Rightarrow> int \<Rightarrow> heap" where
  "fresh_region lo cap =
     \<lparr>mem = (\<lambda>a. 0), heap_lo = lo, heap_brk = lo, heap_max = lo + cap,
      mem_start_brk = 0, seg_list = 0, mm_start_brk = 0, mem_max_addr = 0, m_count = 0\<rparr>"

text \<open>
  The calls a client makes after \<^verbatim>\<open>mm_init\<close>, and the states they reach.  \<open>run_calls\<close>
  returns the value of every call in order (0 for \<^verbatim>\<open>mm_free\<close>) and the last state;
  \<open>after_init\<close> runs the calls on the state that a successful \<^verbatim>\<open>mm_init\<close> leaves.
\<close>

datatype call = Malloc int | Free int | Realloc int int

fun run_call :: "nat \<Rightarrow> heap \<Rightarrow> call \<Rightarrow> (int \<times> heap) result" where
  "run_call fuel s (Malloc n) = mm_malloc fuel s n"
| "run_call fuel s (Free p) = bnd (mm_free fuel s p) (\<lambda>s1. Inr (0, s1))"
| "run_call fuel s (Realloc p n) = mm_realloc fuel s p n"

fun run_calls :: "nat \<Rightarrow> heap \<Rightarrow> call list \<Rightarrow> (int list \<times> heap) result" where
  "run_calls fuel s [] = Inr ([], s)"
| "run_calls fuel s (c # cs) =
     bnd (run_call fuel s c) (\<lambda>(r, s1).
     bnd (run_calls fuel s1 cs) (\<lambda>(rs, s2). Inr (r # rs, s2)))"

definition after_init :: "nat \<Rightarrow> heap \<Rightarrow> call list \<Rightarrow> (int list \<times> heap) result" where
  "after_init fuel s cs =
     bnd (mm_init s) (\<lambda>(r, s1). if r = 0 then run_calls fuel s1 cs else Inr ([], s1))"

text \<open>The state alone, for calls that are known to return.\<close>

definition state_after :: "nat \<Rightarrow> heap \<Rightarrow> call list \<Rightarrow> heap" where
  "state_after fuel s cs = (case after_init fuel s cs of Inr (rs, s1) \<Rightarrow> s1 | Inl e \<Rightarrow> s)"

text \<open>
  The lists that hold an entry: the indices \<open>i\<close> for which the walk of
  \<^verbatim>\<open>check_if_in_list_usr\<close> from \<^verbatim>\<open>seg_list[i]\<close> meets the "next" cell \<open>compare\<close>.
\<close>

definition buckets_holding :: "nat \<Rightarrow> heap \<Rightarrow> int \<Rightarrow> int list" where
  "buckets_holding fuel s compare =
     filter (\<lambda>i. bnd (seg_get s i) (\<lambda>traverse. list_traverse fuel s traverse compare) = Inr 1)
       [0..LISTLENGTH - 1]"

subsection \<open>The bucket selection as the specification words it\<close>

text \<open>
  The specification selects the bucket of a size \<open>s > 0\<close> as
  \<open>position_of_highest_set_bit(s) - 3\<close>, clamped into \<open>[0, 21]\<close>.  These two
  definitions follow its words, not the source.
\<close>

function position_of_highest_set_bit :: "int \<Rightarrow> int" where
  "position_of_highest_set_bit s =
     (if s \<le> 1 then 0 else position_of_highest_set_bit (s div 2) + 1)"
  by pat_completeness auto
termination
  by (relation "measure nat") auto

definition spec_bucket_index :: "int \<Rightarrow> int" where
  "spec_bucket_index s = max 0 (min 21 (position_of_highest_set_bit s - 3))"

subsection \<open>Reading results\<close>

text \<open>The value a call returns, without the state.\<close>

definition returned :: "('a \<times> heap) result \<Rightarrow> 'a result" where
  "returned m = bnd m (\<lambda>(r, s). Inr r)"

text \<open>The region of the examples: 100000 bytes from the address 1000 on.\<close>

definition region0 :: heap where
  "region0 = fresh_region 1000 100000"

text \<open>
  The sequences of calls of the examples.  In \<open>region0\<close> the first four blocks of the
  payload size 128 have the user pointers 1096, 1240, 1384 and 1528.

  Three blocks \<open>a\<close>, \<open>b\<close>, \<open>c\<close>, then \<open>b\<close> is freed and \<open>a\<close> is shrunk.
\<close>

definition shrink_before_free_block :: "call list" where
  "shrink_before_free_block =
     [Malloc 128, Malloc 128, Malloc 128, Free 1240, Realloc 1096 32]"

text \<open>
  Two blocks \<open>a\<close> and \<open>b\<close> of the payload size 48, at 1096 and 1160 (the primer
  has left free space for them), then \<open>a\<close> is freed.
\<close>

definition free_before_block :: "call list" where
  "free_before_block = [Malloc 48, Malloc 48, Free 1096]"

text \<open>Four blocks \<open>a\<close>, \<open>b\<close>, \<open>c\<close>, \<open>d\<close>, then \<open>c\<close> is freed and \<open>b\<close> is shrunk.\<close>

definition two_free_neighbours :: "call list" where
  "two_free_neighbours =
     [Malloc 128, Malloc 128, Malloc 128, Malloc 128, Free 1384, Realloc 1240 32]"

text \<open>
  The state after \<open>malloc(128)\<close>, with the footer of the block, at 1228, overwritten
  by 128.
\<close>

definition footer_overwritten :: heap where
  "footer_overwritten =
     (state_after 10 region0 [Malloc 128])
       \<lparr>mem := (mem (state_after 10 region0 [Malloc 128]))(1228 := 128)\<rparr>"

subsection \<open>The layout of the heap\<close>

text \<open>
  The rest of the definitions is not code of \<^verbatim>\<open>mm.c\<close>.  They describe, over the memory
  of a state, the layout that the functions above maintain, and the invariant of the
  heap is stated with them.

  The data model of the specification gives every block the same layout: the header
  tag at the offset 4 from the start of the block, the payload (and the user pointer)
  at the offset 8, the footer tag at the offset \<open>size + 12\<close>, 16 bytes of overhead; a
  tag is the payload size, a multiple of 8, with the allocation bit as its low bit.
  \<open>Blk z al\<close> is a block of the payload size \<open>z\<close>, allocated if \<open>al\<close>.  While a call is
  at work a stretch of the heap may carry no tags yet (the range that \<^verbatim>\<open>mem_sbrk\<close>
  has just returned) or stale ones (a block taken from its list, before
  \<^verbatim>\<open>mm_malloc\<close> writes the tags): \<open>Raw n\<close> is such a stretch of \<open>n\<close> bytes.
\<close>

definition tag :: "int \<Rightarrow> bool \<Rightarrow> int" where
  "tag z al = (if al then z + 1 else z)"

datatype blk = Blk int bool | Raw int

fun span :: "blk \<Rightarrow> int" where
  "span (Blk z al) = z + 16"
| "span (Raw n) = n"

definition extent :: "blk list \<Rightarrow> int" where
  "extent bs = sum_list (map span bs)"

text \<open>
  \<open>blocks m a bs\<close>: in the memory \<open>m\<close> the blocks \<open>bs\<close> lie one after the other from the
  address \<open>a\<close> on, each with its two tags.  \<open>ublocks a bs\<close> lists them as the user
  pointer, the payload size and the allocation bit; \<open>tagcells a bs\<close> are the addresses
  of their tags; \<open>live a bs\<close> are the user pointers of the allocated ones.
\<close>

fun blocks :: "(int \<Rightarrow> int) \<Rightarrow> int \<Rightarrow> blk list \<Rightarrow> bool" where
  "blocks m a [] = True"
| "blocks m a (Blk z al # bs) =
     (0 \<le> z \<and> 8 dvd z \<and> m (a + 4) = tag z al \<and> m (a + z + 12) = tag z al \<and>
      blocks m (a + z + 16) bs)"
| "blocks m a (Raw n # bs) = (0 \<le> n \<and> 8 dvd n \<and> blocks m (a + n) bs)"

fun ublocks :: "int \<Rightarrow> blk list \<Rightarrow> (int \<times> int \<times> bool) list" where
  "ublocks a [] = []"
| "ublocks a (Blk z al # bs) = (a + 8, z, al) # ublocks (a + z + 16) bs"
| "ublocks a (Raw n # bs) = ublocks (a + n) bs"

fun tagcells :: "int \<Rightarrow> blk list \<Rightarrow> int set" where
  "tagcells a [] = {}"
| "tagcells a (Blk z al # bs) = {a + 4, a + z + 12} \<union> tagcells (a + z + 16) bs"
| "tagcells a (Raw n # bs) = tagcells (a + n) bs"

definition live :: "int \<Rightarrow> blk list \<Rightarrow> int set" where
  "live a bs = {u. \<exists>z. (u, z, True) \<in> set (ublocks a bs)}"

fun isblk :: "blk \<Rightarrow> bool" where
  "isblk (Blk z al) = True"
| "isblk (Raw n) = False"

definition noraw :: "blk list \<Rightarrow> bool" where
  "noraw bs = list_all isblk bs"

fun isfree :: "blk \<Rightarrow> bool" where
  "isfree (Blk z al) = (\<not> al)"
| "isfree (Raw n) = False"

definition allfree :: "blk list \<Rightarrow> bool" where
  "allfree bs = list_all isfree bs"

text \<open>
  A list as \<^verbatim>\<open>add_to_list_usr\<close> builds it.  An entry is a free block with the user
  pointer \<open>u\<close>: the word at \<open>u + 4\<close> is its "next" cell and the word at \<open>u\<close> its "prev"
  cell.  A "next" cell, and the head \<^verbatim>\<open>seg_list[i]\<close>, holds the address of the "next"
  cell of the entry that follows, or 0; the "prev" cell of the first entry holds the
  address of the head, the "prev" cell of any other entry the user pointer of the
  entry before it.  \<open>links m c nc us\<close>: in the memory \<open>m\<close> the entries \<open>us\<close> follow the
  cell \<open>nc\<close> in this order, and \<open>c\<close> is what the "prev" cell of the first of them
  holds.  \<open>cells nc us\<close> are the addresses that this reads.
\<close>

fun links :: "(int \<Rightarrow> int) \<Rightarrow> int \<Rightarrow> int \<Rightarrow> int list \<Rightarrow> bool" where
  "links m c nc [] = (m nc = 0)"
| "links m c nc (u # us) = (m nc = u + 4 \<and> m u = c \<and> links m u (u + 4) us)"







text \<open>
  The invariant.  The region starts at a positive multiple of 8 and ends below
  \<open>2 ^ 31\<close>; the 22 heads take its first 88 bytes; the blocks \<open>bs\<close> fill the rest up
  to the break; \<open>L j\<close> are the entries of the list \<open>j\<close>, each once; and a block is an
  entry of the list \<open>j\<close> exactly if it is free, its payload size is not 0, \<open>j\<close> is the
  bucket of its size, and it is not in \<open>D\<close>.  \<open>D\<close> holds the free blocks that a call
  has taken from their lists, or has not put into one yet; between two calls it is
  empty.
\<close>

definition heap_inv :: "heap \<Rightarrow> blk list \<Rightarrow> (int \<Rightarrow> int list) \<Rightarrow> int set \<Rightarrow> bool" where
  "heap_inv s bs L D \<longleftrightarrow>
     0 < heap_lo s \<and> 8 dvd heap_lo s \<and> seg_list s = heap_lo s \<and>
     mm_start_brk s = heap_lo s + 88 \<and> heap_brk s = heap_lo s + 88 + extent bs \<and>
     heap_brk s \<le> heap_max s \<and> heap_max s < 2 ^ 31 \<and>
     blocks (mem s) (heap_lo s + 88) bs \<and>
     (\<forall>j. 0 \<le> j \<and> j < 22 \<longrightarrow>
        links (mem s) (heap_lo s + 4 * j) (heap_lo s + 4 * j) (L j) \<and> distinct (L j)) \<and>
     (\<forall>j. \<not> (0 \<le> j \<and> j < 22) \<longrightarrow> L j = []) \<and>
     (\<forall>u j. u \<in> set (L j) \<longleftrightarrow>
        u \<notin> D \<and> (\<exists>z. (u, z, False) \<in> set (ublocks (heap_lo s + 88) bs) \<and> 0 < z \<and>
           bucket_index z = j))"







subsection \<open>The states that allocation and release reach\<close>









section \<open>Facts about single functions\<close>

subsection \<open>Evaluation of results\<close>

lemma bnd_Inr [simp]: "bnd (Inr x) f = f x"
  by (simp add: bnd_def)

lemma bnd_Inl [simp]: "bnd (Inl e) f = Inl e"
  by (simp add: bnd_def)

lemma bnd_eq_Inr: "bnd m f = Inr y \<longleftrightarrow> (\<exists>x. m = Inr x \<and> f x = Inr y)"
  by (cases m) simp_all



declare count_bits.simps [simp del] position_of_highest_set_bit.simps [simp del]
  search_lists.simps [simp del] init_list.simps [simp del] copy_words.simps [simp del]
  check_lists.simps [simp del]

subsection \<open>Constants and single accesses\<close>





lemma in_heap_mem_update [simp]: "in_heap (s\<lparr>mem := m\<rparr>) a = in_heap s a"
  by (simp add: in_heap_def)

subsection \<open>The bit count\<close>

lemma sdiv_two_pos: "0 < (s::int) \<Longrightarrow> s sdiv 2 = s div 2"
  by (simp add: signed_divide_int_def sgn_if)

lemma count_bits_pos: "0 < s \<Longrightarrow> count_bits s c = c + 1 + position_of_highest_set_bit s"
proof (induction s c rule: count_bits.induct)
  case (1 temp_val cnt_bit)
  show ?case
  proof (cases "temp_val = 1")
    case True
    then show ?thesis
      by (simp add: count_bits.simps[of 1] count_bits.simps[of 0] signed_divide_int_def
          position_of_highest_set_bit.simps[of 1])
  next
    case False
    with "1.prems" have big: "2 \<le> temp_val" by simp
    then have half: "0 < temp_val div 2" by simp
    have "count_bits temp_val cnt_bit = count_bits (temp_val div 2) (cnt_bit + 1)"
      using "1.prems" by (subst count_bits.simps) (simp add: sdiv_two_pos)
    also have "\<dots> = cnt_bit + 1 + 1 + position_of_highest_set_bit (temp_val div 2)"
      using "1.IH" "1.prems" half by (simp add: sdiv_two_pos)
    also have "\<dots> = cnt_bit + 1 + position_of_highest_set_bit temp_val"
      using big by (subst (2) position_of_highest_set_bit.simps) simp
    finally show ?thesis .
  qed
qed

text \<open>
  \<open>position_of_highest_set_bit\<close> is what its name says: for \<open>s \<ge> 1\<close> it is the \<open>k\<close>
  with \<open>2 ^ k \<le> s < 2 ^ (k + 1)\<close>.
\<close>

lemma highest_bit_bounds:
  "1 \<le> s \<Longrightarrow> 0 \<le> position_of_highest_set_bit s \<and>
     2 ^ nat (position_of_highest_set_bit s) \<le> s \<and>
     s < 2 * 2 ^ nat (position_of_highest_set_bit s)"
proof (induction s rule: position_of_highest_set_bit.induct)
  case (1 s)
  show ?case
  proof (cases "s \<le> 1")
    case True
    with "1.prems" have "s = 1" by simp
    then show ?thesis by (simp add: position_of_highest_set_bit.simps[of 1])
  next
    case False
    then have half: "1 \<le> s div 2" by simp
    define k where "k = position_of_highest_set_bit (s div 2)"
    from "1.IH"[OF False half] have k0: "0 \<le> k" and lo: "2 ^ nat k \<le> s div 2"
      and hi: "s div 2 < 2 * 2 ^ nat k" by (simp_all add: k_def)
    have eq: "position_of_highest_set_bit s = k + 1"
      using False by (subst position_of_highest_set_bit.simps) (simp add: k_def)
    have nk: "nat (k + 1) = Suc (nat k)" using k0 by simp
    have "2 * 2 ^ nat k \<le> s" using lo by linarith
    moreover have "s < 2 * (2 * 2 ^ nat k)" using hi by linarith
    ultimately show ?thesis using k0 by (simp add: eq nk)
  qed
qed

lemma highest_bit_ge:
  assumes s: "1 \<le> s"
  shows "int k \<le> position_of_highest_set_bit s \<longleftrightarrow> 2 ^ k \<le> s"
proof -
  define h where "h = nat (position_of_highest_set_bit s)"
  from highest_bit_bounds[OF s] have h0: "position_of_highest_set_bit s = int h"
    and lo: "2 ^ h \<le> s" and hi: "s < 2 * 2 ^ h" by (simp_all add: h_def)
  show ?thesis
  proof
    assume "int k \<le> position_of_highest_set_bit s"
    then have "k \<le> h" using h0 by simp
    then have "(2::int) ^ k \<le> 2 ^ h" by (simp add: power_increasing)
    with lo show "2 ^ k \<le> s" by linarith
  next
    assume a: "2 ^ k \<le> s"
    show "int k \<le> position_of_highest_set_bit s"
    proof (rule ccontr)
      assume "\<not> int k \<le> position_of_highest_set_bit s"
      then have "Suc h \<le> k" using h0 by simp
      then have "(2::int) ^ Suc h \<le> 2 ^ k" by (rule power_increasing) simp
      with a hi show False by simp
    qed
  qed
qed

subsection \<open>Insertion and search\<close>


lemma bucket_index_zero: "bucket_index (to_int (ALIGN 0)) = - 4"
  by code_simp

lemma content_zero: "to_int (ALIGN 0) = 0"
  by code_simp

lemma search_lists_zero:
  "search_lists fuel s (bucket_index (to_int (ALIGN 0))) c = Inl (BadIndex (- 4))"
  by (subst search_lists.simps) (simp add: bucket_index_zero seg_get_def LISTLENGTH_def)

subsection \<open>The last step of an allocation\<close>



section \<open>The invariant of the heap\<close>

subsection \<open>Arithmetic of the tags and of the rounding\<close>










subsection \<open>Blocks and links\<close>

text \<open>
  The extent of a run of blocks, the bounds of the blocks and of their tags, and the
  cells on which \<open>blocks\<close> and \<open>links\<close> depend.
\<close>

lemma extent_simps [simp]:
  "extent [] = 0" "extent (b # bs) = span b + extent bs" "extent (xs @ ys) = extent xs + extent ys"
  by (simp_all add: extent_def)



lemma tagcells_append: "tagcells a (xs @ ys) = tagcells a xs \<union> tagcells (a + extent xs) ys"
  by (induction a xs rule: tagcells.induct) (auto simp: algebra_simps)








subsection \<open>Removal from a list\<close>







subsection \<open>Insertion into a list\<close>





lemma heap_inv_corr:
  "heap_inv s bs L D \<Longrightarrow>
     (u \<in> set (L j)) =
     (u \<notin> D \<and> (\<exists>z. (u, z, False) \<in> set (ublocks (heap_lo s + 88) bs) \<and> 0 < z \<and> bucket_index z = j))"
  unfolding heap_inv_def by blast







subsection \<open>Steps that keep the invariant\<close>

text \<open>
  Writes to the cells of one list; the removal and the insertion of a free block; the
  replacement of a run of blocks by another of the same extent; the extension of the
  region.
\<close>

lemma heap_inv_m_count [simp]: "heap_inv (s\<lparr>m_count := x\<rparr>) bs L D = heap_inv s bs L D"
  by (simp add: heap_inv_def)

lemma heap_inv_mem_max_addr [simp]: "heap_inv (s\<lparr>mem_max_addr := x\<rparr>) bs L D = heap_inv s bs L D"
  by (simp add: heap_inv_def)








lemma heap_inv_D_cong:
  assumes inv: "heap_inv s bs L D"
    and D: "\<And>u z. (u, z, False) \<in> set (ublocks (heap_lo s + 88) bs) \<Longrightarrow> 0 < z \<Longrightarrow> (u \<in> D') = (u \<in> D)"
  shows "heap_inv s bs L D'"
proof -
  have "(u \<in> set (L j)) =
     (u \<notin> D' \<and> (\<exists>z. (u, z, False) \<in> set (ublocks (heap_lo s + 88) bs) \<and> 0 < z \<and> bucket_index z = j))"
    for u j
    unfolding heap_inv_corr[OF inv] using D by blast
  then show ?thesis using inv unfolding heap_inv_def by blast
qed



subsection \<open>The search and the tags of an allocation\<close>

text \<open>
  The search of \<^verbatim>\<open>mm_malloc\<close> takes a block from its list, splits it when 16 bytes or
  more are left, and puts the remainder into its list unless its payload size is 0.
\<close>

lemma live_simps [simp]:
  "live a [] = {}"
  "live a (Blk z al # bs) = (if al then insert (a + 8) (live (a + z + 16) bs) else live (a + z + 16) bs)"
  "live a (Raw n # bs) = live (a + n) bs"
  by (auto simp: live_def)


lemma noraw_simps [simp]:
  "noraw [] = True" "noraw (b # bs) = (isblk b \<and> noraw bs)"
  "noraw (xs @ ys) = (noraw xs \<and> noraw ys)"
  by (simp_all add: noraw_def)











lemma mem_same [simp]: "s\<lparr>mem := mem s\<rparr> = (s::heap)"
  by simp










subsection \<open>Coalescing\<close>

text \<open>
  The two loops of \<^verbatim>\<open>coalesce\<close> and the merged block.
\<close>

lemma allfree_simps [simp]:
  "allfree [] = True" "allfree (b # bs) = (isfree b \<and> allfree bs)"
  "allfree (xs @ ys) = (allfree xs \<and> allfree ys)"
  by (simp_all add: allfree_def)







subsection \<open>Release and allocation\<close>






subsection \<open>Reachable states\<close>


















section \<open>The claims\<close>

subsection \<open>C1: adjacent free blocks\<close>

text \<open>
  C1 says that no reachable state has two free blocks next to each other, also after
  the shrinking case of \<^verbatim>\<open>mm_realloc\<close>.  The calls \<open>a = malloc(128)\<close>,
  \<open>b = malloc(128)\<close>, \<open>c = malloc(128)\<close>, \<open>free(b)\<close>, \<open>realloc(a, 32)\<close> return the
  pointers listed.  Afterwards \<open>a\<close> has the allocated tag 33; the tail split off it
  has its header at \<open>FORWARDINT (1096 - 4) 32 = 1140\<close>, the free tag 80; and the
  header of the block that follows the tail, at \<open>FORWARDINT 1140 80\<close>, is 128, the
  free tag of \<open>b\<close>: two free blocks are adjacent.  \<^verbatim>\<open>mm_check\<close> itself rejects the
  state with "not coalesced".
\<close>

theorem realloc_shrink_leaves_adjacent_free:
  "returned (after_init 10 region0 shrink_before_free_block)
     = Inr [1096, 1240, 1384, 0, 1096] \<and>
   INTVAL (state_after 10 region0 shrink_before_free_block) (1096 - 4) = Inr 33 \<and>
   FORWARDINT (1096 - 4) 32 = 1140 \<and>
   INTVAL (state_after 10 region0 shrink_before_free_block) 1140 = Inr 80 \<and>
   GET_ALLOC 80 = 0 \<and>
   INTVAL (state_after 10 region0 shrink_before_free_block) (FORWARDINT 1140 80) = Inr 128 \<and>
   GET_ALLOC 128 = 0 \<and>
   mm_check 10 (state_after 10 region0 shrink_before_free_block)
     = Inr (0, [NotCoalesced 1240, Invalid])"
  by code_simp

subsection \<open>C2: the tags after an exact fit\<close>

text \<open>
  C2 says that a successful coalesce attempt of \<^verbatim>\<open>mm_realloc\<close> leaves allocated tags
  of the new size on the block it returns, also when the total equals the new size.
  After \<open>a = malloc(48)\<close>, \<open>b = malloc(48)\<close>, \<open>free(a)\<close> the backward walk of
  \<open>realloc(b, 112)\<close> reaches the total \<open>48 + 48 + 16 = 112\<close>, an exact fit.  The call
  returns \<open>a = 1096\<close>, but the header of the returned block still is 48, the free tag
  of \<open>a\<close>, and the word at the footer's place still is 49, the old footer of \<open>b\<close>;
  the allocated tag of size 112 would be 113.  \<^verbatim>\<open>mm_check\<close> takes the returned
  block for a free block that is in no list.
\<close>

theorem realloc_exact_fit_leaves_stale_tags:
  "realloc_backward 10 (state_after 10 region0 free_before_block)
      (1160 - 12) 48 (to_int (ALIGN 112)) = Inr (1084, 112, True) \<and>
   returned (after_init 10 region0 (free_before_block @ [Realloc 1160 112]))
     = Inr [1096, 1160, 0, 1096] \<and>
   INTVAL (state_after 10 region0 (free_before_block @ [Realloc 1160 112])) (1096 - 4)
     = Inr 48 \<and>
   INTVAL (state_after 10 region0 (free_before_block @ [Realloc 1160 112]))
      (SECONDINFO (1096 - 8) 112) = Inr 49 \<and>
   SET_ALLOC_VAL (to_int (ALIGN 112)) = 113 \<and>
   mm_check 10 (state_after 10 region0 (free_before_block @ [Realloc 1160 112]))
     = Inr (0, [NotInList 1096, Invalid])"
  by code_simp

subsection \<open>C3: a failing extension at the tail\<close>

text \<open>
  C3 says that \<^verbatim>\<open>mm_realloc\<close> returns a null pointer, without exit, when the heap
  region cannot be extended for the last block.  Counterexample: in a region of 232
  bytes, \<open>malloc(128)\<close> returns 1096 and fills the region; the block is the last one;
  \<open>realloc(1096, 256)\<close> then does not return: it ends in \<^verbatim>\<open>exit(1)\<close>.
\<close>

theorem realloc_tail_extend_failure_exits:
  "returned (after_init 10 (fresh_region 1000 232) [Malloc 128]) = Inr [1096] \<and>
   check_last_usr (state_after 10 (fresh_region 1000 232) [Malloc 128]) 1096 = Inr 1 \<and>
   returned (mm_realloc 10 (state_after 10 (fresh_region 1000 232) [Malloc 128]) 1096 256)
     = Inl (Exit 1)"
  by code_simp

text \<open>
  C3 as amended: for every state of a region at non-negative addresses, every
  non-null pointer \<open>ptr\<close> whose block is the last one of the heap
  (\<^verbatim>\<open>check_last_usr\<close> returns 1) and every non-zero size whose rounding \<open>new\<close> is
  larger than the payload of the block (which is not negative) and so small that
  \<open>new + 16\<close> does not overflow an \<^verbatim>\<open>int\<close>, if \<^verbatim>\<open>mem_sbrk\<close> fails for the
  difference then it leaves the state as it was and \<^verbatim>\<open>mm_realloc\<close> calls
  \<^verbatim>\<open>exit(1)\<close> (after the line "mem_sbrk failed", which the model does not keep): it
  returns no pointer, null or other.
\<close>

theorem realloc_tail_extend_exits:
  assumes "ptr \<noteq> 0" and "sz \<noteq> 0"
    and "0 \<le> heap_lo s"
    and "INTVAL s (ptr - 4) = Inr h"
    and "GET_SIZE h < to_int (ALIGN sz)"
    and "to_int (ALIGN sz) + 16 < 2 ^ 31"
    and "0 \<le> GET_SIZE h"
    and "check_last_usr s ptr = Inr 1"
    and "fst (mem_sbrk s (to_int (ALIGN sz) - GET_SIZE h)) = - 1"
  shows "mem_sbrk s (to_int (ALIGN sz) - GET_SIZE h) = (- 1, s) \<and>
         mm_realloc fuel s ptr sz = Inl (Exit 1)"
proof -
  define new where "new = to_int (ALIGN sz)"
  define old where "old = GET_SIZE h"
  have lt: "old < new" and hi: "new + 16 < 2 ^ 31" and lo: "0 \<le> old"
    using assms(5,6,7) by (simp_all add: new_def old_def)
  have w1: "to_int (new + 16) = new + 16"
    unfolding to_int_def using lt lo hi by (intro signed_take_bit_int_eq_self) simp_all
  have w2: "to_int (new - old) = new - old"
    unfolding to_int_def using lt lo hi by (intro signed_take_bit_int_eq_self) simp_all
  have "0 \<le> heap_brk s"
    using assms(3,4) by (auto simp: INTVAL_def in_heap_def split: if_splits)
  then have sb: "mem_sbrk s (new - old) = (- 1, s)"
    using assms(9) by (auto simp: mem_sbrk_def new_def old_def split: if_splits)
  have "mm_realloc fuel s ptr sz = Inl (Exit 1)"
    using assms(1,2,4,8) lt sb
    by (simp add: mm_realloc_def Let_def new_def[symmetric] old_def[symmetric] w1 w2)
  with sb show ?thesis by (simp add: new_def old_def)
qed

text \<open>
  Witness for C3 as amended: the state after \<open>malloc(128)\<close> in a region of 232 bytes,
  with \<open>ptr = 1096\<close> and the size 256.
\<close>

theorem realloc_tail_extend_exits_witness:
  "(1096::int) \<noteq> 0 \<and> (256::int) \<noteq> 0 \<and>
   0 \<le> heap_lo (state_after 10 (fresh_region 1000 232) [Malloc 128]) \<and>
   INTVAL (state_after 10 (fresh_region 1000 232) [Malloc 128]) (1096 - 4) = Inr 129 \<and>
   GET_SIZE 129 < to_int (ALIGN 256) \<and>
   to_int (ALIGN 256) + 16 < 2 ^ 31 \<and>
   0 \<le> GET_SIZE 129 \<and>
   check_last_usr (state_after 10 (fresh_region 1000 232) [Malloc 128]) 1096 = Inr 1 \<and>
   fst (mem_sbrk (state_after 10 (fresh_region 1000 232) [Malloc 128])
          (to_int (ALIGN 256) - GET_SIZE 129)) = - 1 \<and>
   mm_realloc 10 (state_after 10 (fresh_region 1000 232) [Malloc 128]) 1096 256
     = Inl (Exit 1)"
proof -
  let ?s = "state_after 10 (fresh_region 1000 232) [Malloc 128]"
  have h1: "(1096::int) \<noteq> 0" and h2: "(256::int) \<noteq> 0" by simp_all
  have h0: "0 \<le> heap_lo ?s" by code_simp
  have h3: "INTVAL ?s (1096 - 4) = Inr 129" by code_simp
  have h4: "GET_SIZE 129 < to_int (ALIGN 256)" by code_simp
  have h5: "to_int (ALIGN 256) + 16 < 2 ^ 31" by code_simp
  have h6: "0 \<le> GET_SIZE 129" by code_simp
  have h7: "check_last_usr ?s 1096 = Inr 1" by code_simp
  have h8: "fst (mem_sbrk ?s (to_int (ALIGN 256) - GET_SIZE 129)) = - 1" by code_simp
  show ?thesis
    using realloc_tail_extend_exits[OF h1 h2 h0 h3 h4 h5 h6 h7 h8, of 10] h0 h3 h4 h5 h6 h7 h8
    by simp
qed

subsection \<open>C4: the forward removal loop\<close>

text \<open>
  C4 says that the coalesce path of \<^verbatim>\<open>mm_realloc\<close> removes every free neighbour it
  consumed from its list.  After four \<open>malloc(128)\<close> (\<open>a\<close>, \<open>b\<close>, \<open>c\<close>, \<open>d\<close>),
  \<open>free(c)\<close> and \<open>realloc(b, 32)\<close>, the block \<open>b = 1240\<close> is followed by two free
  blocks: the headers at 1284 and 1380 are the free tags 80 and 128, and their "next"
  cells 1292 and 1388 are in the lists 3 and 4.  The forward walk of
  \<open>realloc(b, 256)\<close> consumes both (\<open>32 + 96 + 144 = 272\<close>) and ends at the header
  of \<open>d\<close>.  The call returns \<open>b\<close> with the allocated tag 257 in the header and in
  the footer at 1500.  The cell 1292 has left its list, but the cell 1388 of \<open>c\<close>,
  inside the new block, still is in list 4: the removal loop ran once.  The next
  \<open>malloc(128)\<close> returns \<open>c = 1384\<close>, inside the block that \<open>b\<close> occupies.
\<close>

theorem realloc_forward_removal_misses_neighbor:
  "INTVAL (state_after 10 region0 two_free_neighbours) (FORWARDINT (1240 - 4) 32) = Inr 80 \<and>
   INTVAL (state_after 10 region0 two_free_neighbours) (FORWARDINT 1284 80) = Inr 128 \<and>
   buckets_holding 10 (state_after 10 region0 two_free_neighbours) (1284 + 8) = [3] \<and>
   buckets_holding 10 (state_after 10 region0 two_free_neighbours) (1380 + 8) = [4] \<and>
   realloc_forward 10
      ((state_after 10 region0 two_free_neighbours)
         \<lparr>mem_max_addr := mem_heap_hi (state_after 10 region0 two_free_neighbours)\<rparr>)
      (FORWARDINT (1240 - 4) 32) 32 (to_int (ALIGN 256)) = Inr (1524, 272, True) \<and>
   returned (after_init 10 region0 (two_free_neighbours @ [Realloc 1240 256]))
     = Inr [1096, 1240, 1384, 1528, 0, 1240, 1240] \<and>
   INTVAL (state_after 10 region0 (two_free_neighbours @ [Realloc 1240 256])) (1240 - 4)
     = Inr 257 \<and>
   INTVAL (state_after 10 region0 (two_free_neighbours @ [Realloc 1240 256]))
      (SECONDINFO (1240 - 8) 256) = Inr 257 \<and>
   SECONDINFO (1240 - 8) 256 = 1500 \<and>
   buckets_holding 10 (state_after 10 region0 (two_free_neighbours @ [Realloc 1240 256]))
      (1284 + 8) = [] \<and>
   buckets_holding 10 (state_after 10 region0 (two_free_neighbours @ [Realloc 1240 256]))
      (1380 + 8) = [4] \<and>
   returned (after_init 10 region0 (two_free_neighbours @ [Realloc 1240 256, Malloc 128]))
     = Inr [1096, 1240, 1384, 1528, 0, 1240, 1240, 1384]"
  by code_simp

subsection \<open>C5: a null pointer\<close>

text \<open>
  C5 says that \<open>realloc(NULL, n)\<close> behaves as \<open>malloc(n)\<close> and reads nothing through
  the null pointer.  Right after \<^verbatim>\<open>mm_init\<close>, \<open>malloc(8)\<close> returns 1096, while
  \<open>realloc(NULL, 8)\<close> reads the word at the address \<open>-4\<close>, outside the heap region: the
  initialisers of \<open>copySize\<close> and \<open>totalSize\<close> read the header before \<open>ptr\<close> is
  compared with \<^verbatim>\<open>NULL\<close>.
\<close>

theorem realloc_null_reads_header:
  "returned (after_init 10 region0 [Malloc 8]) = Inr [1096] \<and>
   returned (after_init 10 region0 [Realloc 0 8]) = Inl (BadAccess (- 4))"
  by code_simp

subsection \<open>C6: free blocks and their lists\<close>




subsection \<open>C7: the alignment of the pointer returned\<close>




subsection \<open>C8: the index of a bucket\<close>

text \<open>
  C8 says that the index computed for a size \<open>s > 0\<close> is the position of the highest
  set bit minus 3, clamped into \<open>[0, 21]\<close>, so that no insertion or search uses an
  index outside.  Counterexample: in a region of \<open>2 ^ 26\<close> bytes \<open>malloc(33554432)\<close>
  returns 1096, and \<open>free(1096)\<close> then uses the index 22 for the payload size
  \<open>2 ^ 25 = 33554432\<close>, where the clamped index is 21.
\<close>

theorem bucket_index_not_clamped:
  "returned (after_init 10 (fresh_region 1000 (2 ^ 26)) [Malloc 33554432]) = Inr [1096] \<and>
   returned (after_init 10 (fresh_region 1000 (2 ^ 26)) [Malloc 33554432, Free 1096])
     = Inl (BadIndex 22) \<and>
   bucket_index 33554432 = 22 \<and> spec_bucket_index 33554432 = 21"
  by code_simp

text \<open>
  C8 as amended: for every size \<open>s > 0\<close> the index computed is the position of the
  highest set bit minus 3, without clamping; it lies in \<open>[0, 21]\<close>, and equals the
  clamped value, exactly when \<open>8 \<le> s < 2 ^ 25\<close>.
\<close>

theorem bucket_index_unclamped:
  assumes "0 < s"
  shows "bucket_index s = position_of_highest_set_bit s - 3 \<and>
         ((0 \<le> bucket_index s \<and> bucket_index s \<le> 21) = (8 \<le> s \<and> s < 2 ^ 25)) \<and>
         ((bucket_index s = spec_bucket_index s) = (8 \<le> s \<and> s < 2 ^ 25))"
proof -
  from assms have s: "1 \<le> s" by simp
  have idx: "bucket_index s = position_of_highest_set_bit s - 3"
    using assms by (simp add: bucket_index_def count_bits_pos)
  have ge3: "3 \<le> position_of_highest_set_bit s \<longleftrightarrow> 8 \<le> s"
    using highest_bit_ge[OF s, of 3] by simp
  have ge25: "25 \<le> position_of_highest_set_bit s \<longleftrightarrow> 2 ^ 25 \<le> s"
    using highest_bit_ge[OF s, of 25] by simp
  show ?thesis
    using ge3 ge25 unfolding idx spec_bucket_index_def by (auto simp: max_def min_def)
qed

text \<open>Witness for C8 as amended: the payload size 80, of the bucket 3.\<close>

theorem bucket_index_unclamped_witness:
  "(0::int) < 80 \<and> bucket_index 80 = position_of_highest_set_bit 80 - 3 \<and>
   bucket_index 80 = 3 \<and> 0 \<le> bucket_index 80 \<and> bucket_index 80 \<le> 21 \<and>
   bucket_index 80 = spec_bucket_index 80"
proof -
  have h: "(0::int) < 80" by simp
  have v: "bucket_index 80 = 3" by code_simp
  show ?thesis using bucket_index_unclamped[OF h] h v by simp
qed

subsection \<open>C9: the checker and a footer that differs\<close>

text \<open>
  C9 says that \<^verbatim>\<open>mm_check\<close> returns 0 whenever the header of some block differs from
  its footer.  In the state after \<open>malloc(128)\<close> with the footer of the block
  overwritten by 128, the header of the block is 129 and its footer is 128;
  \<^verbatim>\<open>mm_check\<close> prints "different header/footer" for the block and returns 1.
\<close>

theorem check_accepts_tag_mismatch:
  "INTVAL footer_overwritten (1096 - 4) = Inr 129 \<and>
   INTVAL footer_overwritten (SECONDINFO (1096 - 8) 128) = Inr 128 \<and>
   mm_check 10 footer_overwritten = Inr (1, [DifferentHeaderFooter 1096])"
  by code_simp

subsection \<open>C10: a request of size 0\<close>

text \<open>
  C10 says that for the request size 0 the rounded payload of \<^verbatim>\<open>mm_malloc\<close> is 0, its
  search starts at the index \<open>-4\<close>, and the first lookup \<^verbatim>\<open>seg_list[-4]\<close> is outside
  the 22 entries of the list, so that with guarded indexing the read yields no
  value.  In every state: the rounded size is 0, the start index is \<open>-4\<close>, the read
  of that entry is the fault \<open>BadIndex (-4)\<close>, and \<^verbatim>\<open>mm_malloc\<close> returns nothing for
  the size 0; when the counter of small requests is neither 0 nor 4, so that the
  primer only counts, the call ends in exactly that fault.
\<close>

theorem malloc_zero_reads_outside_list:
  "to_int (ALIGN 0) = 0 \<and> bucket_index 0 = - 4 \<and>
   seg_get s (bucket_index 0) = Inl (BadIndex (- 4)) \<and>
   (\<forall>r. mm_malloc fuel s 0 \<noteq> Inr r) \<and>
   (m_count s \<noteq> 0 \<and> m_count s \<noteq> 4 \<longrightarrow> mm_malloc (Suc fuel) s 0 = Inl (BadIndex (- 4)))"
proof -
  have z: "to_int (ALIGN 0) = 0" by (rule content_zero)
  have b: "bucket_index 0 = - 4" using bucket_index_zero by (simp add: z)
  have g: "seg_get s (bucket_index 0) = Inl (BadIndex (- 4))"
    by (simp add: b seg_get_def)
  have n: "to_int (ALIGN (take_bit 32 SIZE_OF_INFOS)) = 16" by code_simp
  have never: "mm_malloc fuel s 0 \<noteq> Inr r" for r
  proof (cases fuel)
    case 0
    then show ?thesis by simp
  next
    case (Suc k)
    show ?thesis
      unfolding Suc
      by (simp add: Let_def n search_lists_zero bnd_eq_Inr del: search_bucket.simps)
  qed
  have exact: "mm_malloc (Suc fuel) s 0 = Inl (BadIndex (- 4))"
    if "m_count s \<noteq> 0" "m_count s \<noteq> 4"
    using that by (simp add: Let_def n search_lists_zero)
  show ?thesis using z b g never exact by blast
qed

text \<open>
  Witness for C10: the state after \<open>malloc(48)\<close>, where the counter is 1; and the
  first call after \<^verbatim>\<open>mm_init\<close>, where the primer runs before the search, ends in the
  same fault.
\<close>

theorem malloc_zero_reads_outside_list_witness:
  "m_count (state_after 10 region0 [Malloc 48]) \<noteq> 0 \<and>
   m_count (state_after 10 region0 [Malloc 48]) \<noteq> 4 \<and>
   mm_malloc (Suc 9) (state_after 10 region0 [Malloc 48]) 0 = Inl (BadIndex (- 4)) \<and>
   returned (after_init 10 region0 [Malloc 0]) = Inl (BadIndex (- 4))"
proof -
  let ?s = "state_after 10 region0 [Malloc 48]"
  have h1: "m_count ?s \<noteq> 0" and h2: "m_count ?s \<noteq> 4" by code_simp+
  have e: "returned (after_init 10 region0 [Malloc 0]) = Inl (BadIndex (- 4))" by code_simp
  show ?thesis
    using malloc_zero_reads_outside_list[of ?s 9] h1 h2 e by simp
qed

end
